theory Spec2Isabelle
  imports Main "HOL-Library.Word"
begin

section \<open>JavaScript values as lib/vm.js sees them\<close>

text \<open>
  The module inspects its arguments with \<^verbatim>\<open>typeof\<close>, strict equality against
  \<^verbatim>\<open>undefined\<close> and \<^verbatim>\<open>null\<close>, truthiness, \<^verbatim>\<open>Number.isInteger\<close>,
  \<^verbatim>\<open>Array.isArray\<close> and property reads. The value type below keeps exactly that much.

  A number is an integer value, NaN, or some other number (a finite fraction or an
  infinity); only \<^verbatim>\<open>Number.isInteger\<close>, \<^verbatim>\<open>>> 0\<close>, \<^verbatim>\<open><= 0\<close> and truthiness are
  ever applied to numbers, and these tell no more apart. Negative zero behaves as zero
  in all of them.

  An object carries its identity and a snapshot of its own properties: the module only
  reads properties and never writes one. Objects that the module builds for its own
  calls (option bags) are only read from and never compared, stored or returned, so
  they all carry the one identity \<open>Temp\<close>; every object that reaches or leaves the
  module has an address of its own.
\<close>

datatype jsnum = JInt int | JNaN | JNonInt

datatype ident = Addr nat | Temp

datatype propkey = Named string | kParsingContext

datatype jsval =
    Undefined
  | Null
  | JBool bool
  | JNum jsnum
  | JStr string
  | JSymbol nat
  | JFunction nat
  | JObject ident "(propkey \<times> jsval) list"
  | JArray ident "jsval list"
  | JUint8Array nat
  | JModuleNamespace nat

fun typeof :: "jsval \<Rightarrow> string" where
  "typeof Undefined = ''undefined''"
| "typeof Null = ''object''"
| "typeof (JBool b) = ''boolean''"
| "typeof (JNum n) = ''number''"
| "typeof (JStr s) = ''string''"
| "typeof (JSymbol n) = ''symbol''"
| "typeof (JFunction f) = ''function''"
| "typeof (JObject i ps) = ''object''"
| "typeof (JArray a xs) = ''object''"
| "typeof (JUint8Array a) = ''object''"
| "typeof (JModuleNamespace a) = ''object''"

text \<open>Truthiness, as \<^verbatim>\<open>if (options)\<close> and \<^verbatim>\<open>!m\<close> read it.\<close>

fun truthy :: "jsval \<Rightarrow> bool" where
  "truthy Undefined = False"
| "truthy Null = False"
| "truthy (JBool b) = b"
| "truthy (JNum (JInt n)) = (n \<noteq> 0)"
| "truthy (JNum JNaN) = False"
| "truthy (JNum JNonInt) = True"
| "truthy (JStr s) = (s \<noteq> [])"
| "truthy v = True"

fun Number_isInteger :: "jsval \<Rightarrow> bool" where
  "Number_isInteger (JNum (JInt n)) = True"
| "Number_isInteger v = False"

fun ArrayIsArray :: "jsval \<Rightarrow> bool" where
  "ArrayIsArray (JArray a xs) = True"
| "ArrayIsArray v = False"

fun isUint8Array :: "jsval \<Rightarrow> bool" where
  "isUint8Array (JUint8Array a) = True"
| "isUint8Array v = False"

fun isModuleNamespaceObject :: "jsval \<Rightarrow> bool" where
  "isModuleNamespaceObject (JModuleNamespace a) = True"
| "isModuleNamespaceObject v = False"

text \<open>
  The identity of a value that has one. Functions have one too: a WeakMap accepts
  them as keys.
\<close>

fun address :: "jsval \<Rightarrow> ident option" where
  "address (JFunction f) = Some (Addr f)"
| "address (JObject i ps) = Some i"
| "address (JArray a xs) = Some a"
| "address (JUint8Array a) = Some (Addr a)"
| "address (JModuleNamespace a) = Some (Addr a)"
| "address v = None"

text \<open>
  A property read \<^verbatim>\<open>o.k\<close>. Own properties of ordinary objects are looked up; every
  other value answers \<^verbatim>\<open>undefined\<close> for the option names the module reads.
\<close>

fun get :: "jsval \<Rightarrow> propkey \<Rightarrow> jsval" where
  "get (JObject i ps) k = (case map_of ps k of None \<Rightarrow> Undefined | Some v \<Rightarrow> v)"
| "get v k = Undefined"

text \<open>
  A destructuring read with a default, \<^verbatim>\<open>const { k = d } = o\<close>: the default stands
  in exactly when the property reads \<^verbatim>\<open>undefined\<close>.
\<close>

definition get_default :: "jsval \<Rightarrow> propkey \<Rightarrow> jsval \<Rightarrow> jsval" where
  "get_default obj k d = (if get obj k = Undefined then d else get obj k)"

text \<open>The own enumerable properties that \<^verbatim>\<open>Object.assign\<close> copies from a source.\<close>

fun own_props :: "jsval \<Rightarrow> (propkey \<times> jsval) list" where
  "own_props (JObject i ps) = ps"
| "own_props v = []"

text \<open>
  \<^verbatim>\<open>Object.assign({}, options, { [k]: v })\<close>: a new object with the properties of
  \<open>options\<close>, then \<open>k\<close> set to \<open>v\<close>. The later source wins, so the new entry is
  looked up first.
\<close>

definition Object_assign :: "jsval \<Rightarrow> propkey \<Rightarrow> jsval \<Rightarrow> jsval" where
  "Object_assign options k v = JObject Temp ((k, v) # own_props options)"

text \<open>Decimal digits of a natural number, for template literals.\<close>

fun string_of_nat :: "nat \<Rightarrow> string" where
  "string_of_nat n =
     (if n < 10 then [char_of (48 + n)]
      else string_of_nat (n div 10) @ [char_of (48 + n mod 10)])"

declare string_of_nat.simps [simp del]

section \<open>Errors\<close>

text \<open>
  The error classes the module throws, with the arguments it gives them (argument
  name, expected type or range, the offending value). \<open>TypeError\<close> is the engine's own
  error for converting a symbol to a string or destructuring \<^verbatim>\<open>null\<close>;
  \<open>Thrown\<close> is any value thrown by the engine or by the code it runs, and the two
  \<open>ERR_SCRIPT_EXECUTION\<close> errors are the engine's timeout and interrupt.
\<close>

datatype vm_error =
    ERR_INVALID_ARG_TYPE string "string list" jsval
  | ERR_OUT_OF_RANGE string string jsval
  | ERR_VM_MODULE_NOT_MODULE
  | TypeError
  | ERR_SCRIPT_EXECUTION_TIMEOUT
  | ERR_SCRIPT_EXECUTION_INTERRUPTED
  | Thrown jsval

section \<open>The validators of lib/vm.js\<close>

text \<open>
  \<^verbatim>\<open>prop >> 0\<close> on an integer-valued number: the value modulo \<open>2^32\<close>, read as a
  signed 32-bit integer.
\<close>

definition shr0 :: "int \<Rightarrow> int" where
  "shr0 n = sint (word_of_int n :: 32 word)"

fun validateInteger :: "jsval \<Rightarrow> string \<Rightarrow> vm_error option" where
  "validateInteger (JNum (JInt n)) propName =
     (if shr0 n \<noteq> n
      then Some (ERR_OUT_OF_RANGE propName ''32-bit integer'' (JNum (JInt n)))
      else None)"
| "validateInteger prop propName =
     Some (ERR_INVALID_ARG_TYPE propName [''integer''] prop)"

definition validateString :: "jsval \<Rightarrow> string \<Rightarrow> vm_error option" where
  "validateString prop propName =
     (if prop \<noteq> Undefined \<and> typeof prop \<noteq> ''string''
      then Some (ERR_INVALID_ARG_TYPE propName [''string''] prop) else None)"

definition validateBool :: "jsval \<Rightarrow> string \<Rightarrow> vm_error option" where
  "validateBool prop propName =
     (if prop \<noteq> Undefined \<and> typeof prop \<noteq> ''boolean''
      then Some (ERR_INVALID_ARG_TYPE propName [''boolean''] prop) else None)"

definition validateObject :: "jsval \<Rightarrow> string \<Rightarrow> vm_error option" where
  "validateObject prop propName =
     (if prop \<noteq> Undefined \<and> (typeof prop \<noteq> ''object'' \<or> prop = Null)
      then Some (ERR_INVALID_ARG_TYPE propName [''Object''] prop) else None)"

section \<open>The world around the module\<close>

text \<open>
  The calls the module makes into the native binding \<^verbatim>\<open>contextify\<close>, each with the
  arguments in the order of the call; the constructor and the run methods also name
  the script object they are called on.
\<close>

datatype engine_call =
    New_ContextifyScript nat "jsval list"
  | Call_makeContext "jsval list"
  | Call_runInThisContext nat "jsval list"
  | Call_runInContext nat "jsval list"
  | Call_compileFunction "jsval list"

datatype emitter_call = RemoveAllListeners | AddListener jsval

text \<open>
  The state the module works on: the SIGINT listeners of \<^verbatim>\<open>process\<close> in
  registration order, the mutating calls made on \<^verbatim>\<open>process\<close>, the objects the
  engine has contextified (each with the name, origin and the two code-generation
  flags it was given), the module's counter for default context names, the next free
  object address, the trace of native calls, and \<^verbatim>\<open>callbackMap\<close> of the
  \<^verbatim>\<open>module_wrap\<close> binding.
\<close>

record world =
  sigint :: "jsval list"
  emitter_log :: "emitter_call list"
  contexts :: "ident \<rightharpoonup> jsval list"
  defaultContextNameIndex :: nat
  next_addr :: nat
  engine_log :: "engine_call list"
  callbackMap :: "nat \<rightharpoonup> jsval"

text \<open>
  What the engine answers. Compiling runs no user code, so it only succeeds or throws;
  running a script may do anything to the world. \<open>ToString_other\<close> is the string
  conversion of numbers, functions and objects in a template literal.
\<close>

record engine =
  ToString_other :: "jsval \<Rightarrow> vm_error + string"
  compile :: "engine_call \<Rightarrow> vm_error option"
  execute :: "engine_call \<Rightarrow> world \<Rightarrow> (vm_error + jsval) \<times> world"
  compile_function :: "engine_call \<Rightarrow> vm_error + jsval"

type_synonym 'a result = "(vm_error + 'a) \<times> world"

subsection \<open>The SIGINT listeners of process\<close>

text \<open>
  Modelled from the spec: \<^verbatim>\<open>process\<close> is an EventEmitter of lib/events.js, which is
  not among the sources. Section 4.3 has the listeners as a sequence in call order that
  is detached as a whole and re-attached one listener at a time at the end.
\<close>

definition listenerCount :: "world \<Rightarrow> nat" where
  "listenerCount st = length (sigint st)"

definition rawListeners :: "world \<Rightarrow> jsval list" where
  "rawListeners st = sigint st"

definition removeAllListeners :: "world \<Rightarrow> world" where
  "removeAllListeners st =
     st\<lparr>sigint := [], emitter_log := emitter_log st @ [RemoveAllListeners]\<rparr>"

definition addListener :: "jsval \<Rightarrow> world \<Rightarrow> world" where
  "addListener listener st =
     st\<lparr>sigint := sigint st @ [listener],
        emitter_log := emitter_log st @ [AddListener listener]\<rparr>"

subsection \<open>The contextify binding\<close>

text \<open>
  Modelled from the spec: the native binding \<^verbatim>\<open>contextify\<close> (\<^verbatim>\<open>isContext\<close>,
  \<^verbatim>\<open>makeContext\<close>) is not among the sources. Section 4.2 has a context wrap the
  given object, tagged with its name, origin and the two code-generation flags, and
  has a predicate that recognises the objects so wrapped.
\<close>

definition isContext_native :: "jsval \<Rightarrow> world \<Rightarrow> bool" where
  "isContext_native sandbox st =
     (case address sandbox of None \<Rightarrow> False | Some a \<Rightarrow> contexts st a \<noteq> None)"

definition makeContext :: "jsval \<Rightarrow> jsval \<Rightarrow> jsval \<Rightarrow> jsval \<Rightarrow> jsval \<Rightarrow> world \<Rightarrow> world" where
  "makeContext sandbox name origin strings wasm st =
     (let st1 = st\<lparr>engine_log :=
                     engine_log st @ [Call_makeContext [sandbox, name, origin, strings, wasm]]\<rparr>
      in case address sandbox of
           None \<Rightarrow> st1
         | Some a \<Rightarrow> st1\<lparr>contexts := (contexts st1)(a \<mapsto> [name, origin, strings, wasm])\<rparr>)"

text \<open>A new empty object \<^verbatim>\<open>{}\<close> that leaves the module: it takes the next address.\<close>

definition new_object :: "world \<Rightarrow> jsval \<times> world" where
  "new_object st = (JObject (Addr (next_addr st)) [], st\<lparr>next_addr := Suc (next_addr st)\<rparr>)"

section \<open>Contexts: isContext, validateContext, getContextOptions, createContext\<close>

definition isContext :: "jsval \<Rightarrow> world \<Rightarrow> vm_error + bool" where
  "isContext sandbox st =
     (if typeof sandbox \<noteq> ''object'' \<or> sandbox = Null
      then Inl (ERR_INVALID_ARG_TYPE ''sandbox'' [''Object''] sandbox)
      else Inr (isContext_native sandbox st))"

definition validateContext :: "jsval \<Rightarrow> world \<Rightarrow> vm_error option" where
  "validateContext sandbox st =
     (if typeof sandbox \<noteq> ''object'' \<or> sandbox = Null
      then Some (ERR_INVALID_ARG_TYPE ''contextifiedSandbox'' [''Object''] sandbox)
      else if \<not> isContext_native sandbox st
      then Some (ERR_INVALID_ARG_TYPE ''contextifiedSandbox'' [''vm.Context''] sandbox)
      else None)"

definition getContextOptions :: "jsval \<Rightarrow> vm_error + jsval" where
  "getContextOptions options =
     (if truthy options then
        let ccg = get options (Named ''contextCodeGeneration'') in
        case validateObject ccg ''options.contextCodeGeneration'' of
          Some e \<Rightarrow> Inl e
        | None \<Rightarrow>
            let name = get options (Named ''contextName'');
                origin = get options (Named ''contextOrigin'');
                codeGeneration =
                  (if typeof ccg = ''object''
                   then JObject Temp [(Named ''strings'', get ccg (Named ''strings'')),
                                      (Named ''wasm'', get ccg (Named ''wasm''))]
                   else Undefined);
                contextOptions =
                  JObject Temp [(Named ''name'', name), (Named ''origin'', origin),
                                (Named ''codeGeneration'', codeGeneration)]
            in (case validateString name ''options.contextName'' of
                  Some e \<Rightarrow> Inl e
                | None \<Rightarrow>
                    (case validateString origin ''options.contextOrigin'' of
                       Some e \<Rightarrow> Inl e
                     | None \<Rightarrow>
                         if truthy codeGeneration then
                           (case validateBool (get codeGeneration (Named ''strings''))
                                   ''options.contextCodeGeneration.strings'' of
                              Some e \<Rightarrow> Inl e
                            | None \<Rightarrow>
                                (case validateBool (get codeGeneration (Named ''wasm''))
                                        ''options.contextCodeGeneration.wasm'' of
                                   Some e \<Rightarrow> Inl e
                                 | None \<Rightarrow> Inr contextOptions))
                         else Inr contextOptions))
      else Inr (JObject Temp []))"

definition createContext :: "jsval \<Rightarrow> jsval \<Rightarrow> world \<Rightarrow> jsval result" where
  "createContext sandbox0 options0 st0 =
     (let (sandbox, st) = (if sandbox0 = Undefined then new_object st0 else (sandbox0, st0));
          options = (if options0 = Undefined then JObject Temp [] else options0)
      in case isContext sandbox st of
           Inl e \<Rightarrow> (Inl e, st)
         | Inr True \<Rightarrow> (Inr sandbox, st)
         | Inr False \<Rightarrow>
             if typeof options \<noteq> ''object'' \<or> options = Null
             then (Inl (ERR_INVALID_ARG_TYPE ''options'' [''Object''] options), st)
             else
               let (name, st1) =
                     (if get options (Named ''name'') = Undefined
                      then (JStr (''VM Context '' @ string_of_nat (defaultContextNameIndex st)),
                            st\<lparr>defaultContextNameIndex := Suc (defaultContextNameIndex st)\<rparr>)
                      else (get options (Named ''name''), st));
                   origin = get options (Named ''origin'');
                   codeGeneration = get options (Named ''codeGeneration'')
               in if typeof name \<noteq> ''string''
                  then (Inl (ERR_INVALID_ARG_TYPE ''options.name'' [''string'']
                               (get options (Named ''name''))), st1)
                  else
                    (case validateString origin ''options.origin'' of
                      Some e \<Rightarrow> (Inl e, st1)
                    | None \<Rightarrow>
                        (case validateObject codeGeneration ''options.codeGeneration'' of
                           Some e \<Rightarrow> (Inl e, st1)
                         | None \<Rightarrow>
                             let strings =
                                   (if codeGeneration \<noteq> Undefined
                                    then get_default codeGeneration (Named ''strings'') (JBool True)
                                    else JBool True);
                                 wasm =
                                   (if codeGeneration \<noteq> Undefined
                                    then get_default codeGeneration (Named ''wasm'') (JBool True)
                                    else JBool True)
                             in (case validateBool strings ''options.codeGeneration.strings'' of
                                   Some e \<Rightarrow> (Inl e, st1)
                                 | None \<Rightarrow>
                                     (case validateBool wasm ''options.codeGeneration.wasm'' of
                                        Some e \<Rightarrow> (Inl e, st1)
                                      | None \<Rightarrow>
                                          (Inr sandbox,
                                           makeContext sandbox name origin strings wasm st1))))))"

section \<open>The Script class\<close>

text \<open>
  The template literal \<^verbatim>\<open>`${code}`\<close>. Primitive values other than numbers convert as
  the language fixes it, a symbol throws, and the conversion of numbers, functions and
  objects is the engine's.
\<close>

fun ToString :: "engine \<Rightarrow> jsval \<Rightarrow> vm_error + string" where
  "ToString E Undefined = Inr ''undefined''"
| "ToString E Null = Inr ''null''"
| "ToString E (JBool b) = Inr (if b then ''true'' else ''false'')"
| "ToString E (JStr s) = Inr s"
| "ToString E (JSymbol n) = Inl TypeError"
| "ToString E v = ToString_other E v"

text \<open>
  The constructor returns the address of the new script object. The native
  constructor is entered only after every check on the options but the one on
  \<^verbatim>\<open>importModuleDynamically\<close>, which follows it.
\<close>

definition Script_constructor :: "engine \<Rightarrow> jsval \<Rightarrow> jsval \<Rightarrow> world \<Rightarrow> nat result" where
  "Script_constructor E code0 options0 st =
     (case ToString E code0 of
        Inl e \<Rightarrow> (Inl e, st)
      | Inr code \<Rightarrow>
          let options1 = (if options0 = Undefined then JObject Temp [] else options0) in
          if typeof options1 \<noteq> ''string'' \<and> (typeof options1 \<noteq> ''object'' \<or> options1 = Null)
          then (Inl (ERR_INVALID_ARG_TYPE ''options'' [''Object''] options1), st)
          else
            let options = (if typeof options1 = ''string''
                           then JObject Temp [(Named ''filename'', options1)] else options1);
                filename = get_default options (Named ''filename'') (JStr ''evalmachine.<anonymous>'');
                lineOffset = get_default options (Named ''lineOffset'') (JNum (JInt 0));
                columnOffset = get_default options (Named ''columnOffset'') (JNum (JInt 0));
                cachedData = get options (Named ''cachedData'');
                produceCachedData = get_default options (Named ''produceCachedData'') (JBool False);
                importModuleDynamically = get options (Named ''importModuleDynamically'');
                parsingContext = get options kParsingContext;
                sourceless = get_default options (Named ''sourceless'') (JBool False)
            in if typeof filename \<noteq> ''string''
               then (Inl (ERR_INVALID_ARG_TYPE ''options.filename'' [''string''] filename), st)
               else
                 (case validateInteger lineOffset ''options.lineOffset'' of
                    Some e \<Rightarrow> (Inl e, st)
                  | None \<Rightarrow>
                      (case validateInteger columnOffset ''options.columnOffset'' of
                         Some e \<Rightarrow> (Inl e, st)
                       | None \<Rightarrow>
                           if cachedData \<noteq> Undefined \<and> \<not> isUint8Array cachedData
                           then (Inl (ERR_INVALID_ARG_TYPE ''options.cachedData''
                                        [''Buffer'', ''Uint8Array''] cachedData), st)
                           else if typeof produceCachedData \<noteq> ''boolean''
                           then (Inl (ERR_INVALID_ARG_TYPE ''options.produceCachedData''
                                        [''boolean''] produceCachedData), st)
                           else
                             let this = next_addr st;
                                 call = New_ContextifyScript this
                                          [JStr code, filename, lineOffset, columnOffset, cachedData,
                                           produceCachedData, parsingContext, sourceless];
                                 st1 = st\<lparr>next_addr := Suc this,
                                          engine_log := engine_log st @ [call]\<rparr>
                             in (case compile E call of
                                   Some e \<Rightarrow> (Inl e, st1)
                                 | None \<Rightarrow>
                                     if importModuleDynamically \<noteq> Undefined
                                     then if typeof importModuleDynamically \<noteq> ''function''
                                          then (Inl (ERR_INVALID_ARG_TYPE
                                                       ''options.importModuleDynamically''
                                                       [''function''] importModuleDynamically), st1)
                                          else (Inr this,
                                                st1\<lparr>callbackMap :=
                                                      (callbackMap st1)(this \<mapsto> importModuleDynamically)\<rparr>)
                                     else (Inr this, st1)))))"

text \<open>
  The function stored in \<^verbatim>\<open>callbackMap\<close> wraps the caller's resolver. Its body after
  the \<^verbatim>\<open>await\<close>: \<open>awaited\<close> is what the resolver's promise settled to. The two
  WeakMaps of internal/vm/source_text_module (not among the sources) are parameters:
  the set of keys of \<^verbatim>\<open>wrapMap\<close> and the map \<^verbatim>\<open>linkingStatusMap\<close>. The
  properties \<^verbatim>\<open>error\<close> and \<^verbatim>\<open>namespace\<close> of a module record are read as the
  record stores them.
\<close>

definition WeakMap_has :: "ident set \<Rightarrow> jsval \<Rightarrow> bool" where
  "WeakMap_has keys m = (case address m of None \<Rightarrow> False | Some a \<Rightarrow> a \<in> keys)"

definition WeakMap_get :: "(ident \<rightharpoonup> jsval) \<Rightarrow> jsval \<Rightarrow> jsval" where
  "WeakMap_get table m =
     (case address m of
        None \<Rightarrow> Undefined
      | Some a \<Rightarrow> (case table a of None \<Rightarrow> Undefined | Some v \<Rightarrow> v))"

definition importModuleDynamically_wrapper ::
    "ident set \<Rightarrow> (ident \<rightharpoonup> jsval) \<Rightarrow> vm_error + jsval \<Rightarrow> vm_error + jsval" where
  "importModuleDynamically_wrapper wrapMap linkingStatusMap awaited =
     (case awaited of
        Inl e \<Rightarrow> Inl e
      | Inr m \<Rightarrow>
          if isModuleNamespaceObject m then Inr m
          else if \<not> truthy m \<or> \<not> WeakMap_has wrapMap m then Inl ERR_VM_MODULE_NOT_MODULE
          else if WeakMap_get linkingStatusMap m = JStr ''errored''
          then Inl (Thrown (get m (Named ''error'')))
          else Inr (get m (Named ''namespace'')))"

subsection \<open>Running a script\<close>

text \<open>\<^verbatim>\<open>!Number.isInteger(timeout) || timeout <= 0\<close>\<close>

fun not_positive_integer :: "jsval \<Rightarrow> bool" where
  "not_positive_integer (JNum (JInt n)) = (n \<le> 0)"
| "not_positive_integer v = True"

definition getRunInContextArgs :: "jsval \<Rightarrow> vm_error + (jsval \<times> jsval list)" where
  "getRunInContextArgs options0 =
     (let options = (if options0 = Undefined then JObject Temp [] else options0) in
      if typeof options \<noteq> ''object'' \<or> options = Null
      then Inl (ERR_INVALID_ARG_TYPE ''options'' [''Object''] options)
      else
        let timeout0 = get options (Named ''timeout'') in
        if timeout0 \<noteq> Undefined \<and> not_positive_integer timeout0
        then Inl (ERR_INVALID_ARG_TYPE ''options.timeout'' [''a positive integer''] timeout0)
        else
          let timeout = (if timeout0 = Undefined then JNum (JInt (- 1)) else timeout0);
              displayErrors = get_default options (Named ''displayErrors'') (JBool True);
              breakOnSigint = get_default options (Named ''breakOnSigint'') (JBool False)
          in if typeof displayErrors \<noteq> ''boolean''
             then Inl (ERR_INVALID_ARG_TYPE ''options.displayErrors'' [''boolean''] displayErrors)
             else if typeof breakOnSigint \<noteq> ''boolean''
             then Inl (ERR_INVALID_ARG_TYPE ''options.breakOnSigint'' [''boolean''] breakOnSigint)
             else Inr (breakOnSigint, [timeout, displayErrors, breakOnSigint]))"

text \<open>The inherited native methods: the call is traced, then the engine runs it.\<close>

definition super_runInThisContext :: "engine \<Rightarrow> nat \<Rightarrow> jsval list \<Rightarrow> world \<Rightarrow> jsval result" where
  "super_runInThisContext E this args st =
     execute E (Call_runInThisContext this args)
       (st\<lparr>engine_log := engine_log st @ [Call_runInThisContext this args]\<rparr>)"

definition super_runInContext :: "engine \<Rightarrow> nat \<Rightarrow> jsval list \<Rightarrow> world \<Rightarrow> jsval result" where
  "super_runInContext E this args st =
     execute E (Call_runInContext this args)
       (st\<lparr>engine_log := engine_log st @ [Call_runInContext this args]\<rparr>)"

text \<open>The \<^verbatim>\<open>for ... of\<close> loop of the \<^verbatim>\<open>finally\<close> block.\<close>

fun reattach :: "jsval list \<Rightarrow> world \<Rightarrow> world" where
  "reattach [] st = st"
| "reattach (listener # rest) st = reattach rest (addListener listener st)"

text \<open>
  \<^verbatim>\<open>try { return fn.apply(thisArg, argsArray) } finally { ... }\<close>: the outcome of
  \<open>fn\<close>, value or exception, is passed on after the loop has run.
\<close>

definition sigintHandlersWrap ::
    "(nat \<Rightarrow> jsval list \<Rightarrow> world \<Rightarrow> jsval result) \<Rightarrow> nat \<Rightarrow> jsval list \<Rightarrow> world \<Rightarrow> jsval result" where
  "sigintHandlersWrap fn thisArg argsArray st =
     (let sigintListeners = rawListeners st;
          st1 = removeAllListeners st;
          (outcome, st2) = fn thisArg argsArray st1
      in (outcome, reattach sigintListeners st2))"

definition Script_runInThisContext :: "engine \<Rightarrow> nat \<Rightarrow> jsval \<Rightarrow> world \<Rightarrow> jsval result" where
  "Script_runInThisContext E this options st =
     (case getRunInContextArgs options of
        Inl e \<Rightarrow> (Inl e, st)
      | Inr (breakOnSigint, args) \<Rightarrow>
          if truthy breakOnSigint \<and> listenerCount st > 0
          then sigintHandlersWrap (super_runInThisContext E) this args st
          else super_runInThisContext E this args st)"

definition Script_runInContext :: "engine \<Rightarrow> nat \<Rightarrow> jsval \<Rightarrow> jsval \<Rightarrow> world \<Rightarrow> jsval result" where
  "Script_runInContext E this contextifiedSandbox options st =
     (case validateContext contextifiedSandbox st of
        Some e \<Rightarrow> (Inl e, st)
      | None \<Rightarrow>
          (case getRunInContextArgs options of
             Inl e \<Rightarrow> (Inl e, st)
           | Inr (breakOnSigint, args) \<Rightarrow>
               if truthy breakOnSigint \<and> listenerCount st > 0
               then sigintHandlersWrap (super_runInContext E) this (contextifiedSandbox # args) st
               else super_runInContext E this (contextifiedSandbox # args) st))"

definition Script_runInNewContext :: "engine \<Rightarrow> nat \<Rightarrow> jsval \<Rightarrow> jsval \<Rightarrow> world \<Rightarrow> jsval result" where
  "Script_runInNewContext E this sandbox options st =
     (case getContextOptions options of
        Inl e \<Rightarrow> (Inl e, st)
      | Inr contextOptions \<Rightarrow>
          (case createContext sandbox contextOptions st of
             (Inl e, st1) \<Rightarrow> (Inl e, st1)
           | (Inr context, st1) \<Rightarrow> Script_runInContext E this context options st1))"

section \<open>The free functions\<close>

definition createScript :: "engine \<Rightarrow> jsval \<Rightarrow> jsval \<Rightarrow> world \<Rightarrow> nat result" where
  "createScript E code options st = Script_constructor E code options st"

definition runInContext :: "engine \<Rightarrow> jsval \<Rightarrow> jsval \<Rightarrow> jsval \<Rightarrow> world \<Rightarrow> jsval result" where
  "runInContext E code contextifiedSandbox options0 st =
     (case validateContext contextifiedSandbox st of
        Some e \<Rightarrow> (Inl e, st)
      | None \<Rightarrow>
          let options =
                (if typeof options0 = ''string''
                 then JObject Temp [(Named ''filename'', options0),
                                    (kParsingContext, contextifiedSandbox)]
                 else Object_assign options0 kParsingContext contextifiedSandbox)
          in (case createScript E code options st of
                (Inl e, st1) \<Rightarrow> (Inl e, st1)
              | (Inr script, st1) \<Rightarrow>
                  Script_runInContext E script contextifiedSandbox options st1))"

definition runInNewContext :: "engine \<Rightarrow> jsval \<Rightarrow> jsval \<Rightarrow> jsval \<Rightarrow> world \<Rightarrow> jsval result" where
  "runInNewContext E code sandbox0 options0 st =
     (let options1 = (if typeof options0 = ''string''
                      then JObject Temp [(Named ''filename'', options0)] else options0)
      in case getContextOptions options1 of
           Inl e \<Rightarrow> (Inl e, st)
         | Inr contextOptions \<Rightarrow>
             (case createContext sandbox0 contextOptions st of
                (Inl e, st1) \<Rightarrow> (Inl e, st1)
              | (Inr sandbox, st1) \<Rightarrow>
                  let options = Object_assign options1 kParsingContext sandbox
                  in (case createScript E code options st1 of
                        (Inl e, st2) \<Rightarrow> (Inl e, st2)
                      | (Inr script, st2) \<Rightarrow>
                          Script_runInNewContext E script sandbox options st2)))"

definition runInThisContext :: "engine \<Rightarrow> jsval \<Rightarrow> jsval \<Rightarrow> world \<Rightarrow> jsval result" where
  "runInThisContext E code options0 st =
     (let options = (if typeof options0 = ''string''
                     then JObject Temp [(Named ''filename'', options0)] else options0)
      in case createScript E code options st of
           (Inl e, st1) \<Rightarrow> (Inl e, st1)
         | (Inr script, st1) \<Rightarrow> Script_runInThisContext E script options st1)"

subsection \<open>compileFunction\<close>

text \<open>
  Modelled from the spec: \<^verbatim>\<open>validateUint32\<close> of internal/validators is not among
  the sources. Section 3 of the spec has the offsets as non-negative integers and
  section 7 has an out-of-range error for a numeric offset outside the 32-bit range;
  the name of the validator fixes that range as the unsigned one, from \<open>0\<close> up to
  \<open>2^32 - 1\<close>. A value that is not a number is an invalid-argument error.
\<close>

fun validateUint32 :: "jsval \<Rightarrow> string \<Rightarrow> vm_error option" where
  "validateUint32 (JNum (JInt n)) name =
     (if 0 \<le> n \<and> n < 2 ^ 32 then None
      else Some (ERR_OUT_OF_RANGE name ''>= 0 && < 4294967296'' (JNum (JInt n))))"
| "validateUint32 (JNum x) name = Some (ERR_OUT_OF_RANGE name ''an integer'' (JNum x))"
| "validateUint32 v name = Some (ERR_INVALID_ARG_TYPE name [''number''] v)"

text \<open>
  \<^verbatim>\<open>ArrayForEach(array, (element, i) => { if (...) throw ... })\<close>: the callback is
  given each element with its index, in order, and the first throw ends the loop.
\<close>

fun ArrayForEach :: "jsval list \<Rightarrow> (jsval \<Rightarrow> nat \<Rightarrow> vm_error option) \<Rightarrow> nat \<Rightarrow> vm_error option" where
  "ArrayForEach [] f i = None"
| "ArrayForEach (x # xs) f i =
     (case f x i of Some e \<Rightarrow> Some e | None \<Rightarrow> ArrayForEach xs f (Suc i))"

fun elements :: "jsval \<Rightarrow> jsval list" where
  "elements (JArray a xs) = xs"
| "elements v = []"

definition check_param :: "jsval \<Rightarrow> nat \<Rightarrow> vm_error option" where
  "check_param param i =
     (if typeof param \<noteq> ''string''
      then Some (ERR_INVALID_ARG_TYPE (''params['' @ string_of_nat i @ '']'') [''string''] param)
      else None)"

definition check_extension :: "jsval \<Rightarrow> nat \<Rightarrow> vm_error option" where
  "check_extension extension i =
     (if typeof extension \<noteq> ''object''
      then Some (ERR_INVALID_ARG_TYPE
                   (''options.contextExtensions['' @ string_of_nat i @ '']'') [''object''] extension)
      else None)"

text \<open>
  Destructuring \<^verbatim>\<open>null\<close> is the engine's TypeError; any other value can be
  destructured. The test \<^verbatim>\<open>!isContext(parsingContext)\<close> stands behind the two
  guards that keep \<^verbatim>\<open>isContext\<close> from throwing.
\<close>

definition compileFunction :: "engine \<Rightarrow> jsval \<Rightarrow> jsval \<Rightarrow> jsval \<Rightarrow> world \<Rightarrow> jsval result" where
  "compileFunction E code params options0 st =
     (if typeof code \<noteq> ''string''
      then (Inl (ERR_INVALID_ARG_TYPE ''code'' [''string''] code), st)
      else if params \<noteq> Undefined \<and> \<not> ArrayIsArray params
      then (Inl (ERR_INVALID_ARG_TYPE ''params'' [''Array''] params), st)
      else
        case ArrayForEach (elements params) check_param 0 of
          Some e \<Rightarrow> (Inl e, st)
        | None \<Rightarrow>
            let options = (if options0 = Undefined then JObject Temp [] else options0) in
            if options = Null then (Inl TypeError, st)
            else
              let filename = get_default options (Named ''filename'') (JStr []);
                  columnOffset = get_default options (Named ''columnOffset'') (JNum (JInt 0));
                  lineOffset = get_default options (Named ''lineOffset'') (JNum (JInt 0));
                  cachedData = get options (Named ''cachedData'');
                  produceCachedData = get_default options (Named ''produceCachedData'') (JBool False);
                  parsingContext = get options (Named ''parsingContext'');
                  contextExtensions =
                    get_default options (Named ''contextExtensions'') (JArray Temp [])
              in if typeof filename \<noteq> ''string''
                 then (Inl (ERR_INVALID_ARG_TYPE ''options.filename'' [''string''] filename), st)
                 else
                   (case validateUint32 columnOffset ''options.columnOffset'' of
                      Some e \<Rightarrow> (Inl e, st)
                    | None \<Rightarrow>
                        (case validateUint32 lineOffset ''options.lineOffset'' of
                           Some e \<Rightarrow> (Inl e, st)
                         | None \<Rightarrow>
                             if cachedData \<noteq> Undefined \<and> \<not> isUint8Array cachedData
                             then (Inl (ERR_INVALID_ARG_TYPE ''options.cachedData''
                                          [''Uint8Array''] cachedData), st)
                             else if typeof produceCachedData \<noteq> ''boolean''
                             then (Inl (ERR_INVALID_ARG_TYPE ''options.produceCachedData''
                                          [''boolean''] produceCachedData), st)
                             else if parsingContext \<noteq> Undefined \<and>
                                     (typeof parsingContext \<noteq> ''object'' \<or> parsingContext = Null \<or>
                                      isContext parsingContext st \<noteq> Inr True)
                             then (Inl (ERR_INVALID_ARG_TYPE ''options.parsingContext''
                                          [''Context''] parsingContext), st)
                             else if \<not> ArrayIsArray contextExtensions
                             then (Inl (ERR_INVALID_ARG_TYPE ''options.contextExtensions''
                                          [''Array''] contextExtensions), st)
                             else
                               (case ArrayForEach (elements contextExtensions) check_extension 0 of
                                  Some e \<Rightarrow> (Inl e, st)
                                | None \<Rightarrow>
                                    let call = Call_compileFunction
                                                 [code, filename, lineOffset, columnOffset,
                                                  cachedData, produceCachedData, parsingContext,
                                                  contextExtensions, params]
                                    in (compile_function E call,
                                        st\<lparr>engine_log := engine_log st @ [call]\<rparr>)))))"

section \<open>Notions the properties are stated with\<close>

text \<open>
  The values that are objects to \<^verbatim>\<open>typeof\<close>: ordinary objects, arrays, typed arrays
  and module namespaces. A function answers \<^verbatim>\<open>'function'\<close> and \<^verbatim>\<open>null\<close> is no
  object, so neither is among them.
\<close>

fun is_object :: "jsval \<Rightarrow> bool" where
  "is_object (JObject i ps) = True"
| "is_object (JArray a xs) = True"
| "is_object (JUint8Array a) = True"
| "is_object (JModuleNamespace a) = True"
| "is_object v = False"

text \<open>
  The options that section 6 of the spec gives \<^verbatim>\<open>createContext\<close>: none, or an
  object whose \<^verbatim>\<open>name\<close> and \<^verbatim>\<open>origin\<close> are strings when present and whose
  \<^verbatim>\<open>codeGeneration\<close>, when present, is an object whose \<^verbatim>\<open>strings\<close> and
  \<^verbatim>\<open>wasm\<close> are booleans when present.
\<close>

definition valid_context_options :: "jsval \<Rightarrow> bool" where
  "valid_context_options options \<longleftrightarrow>
     options = Undefined \<or>
     (is_object options \<and>
      (let name = get options (Named ''name'');
           origin = get options (Named ''origin'');
           codeGeneration = get options (Named ''codeGeneration'')
       in (name = Undefined \<or> typeof name = ''string'') \<and>
          (origin = Undefined \<or> typeof origin = ''string'') \<and>
          (codeGeneration = Undefined \<or>
           (is_object codeGeneration \<and>
            (let strings = get codeGeneration (Named ''strings'');
                 wasm = get codeGeneration (Named ''wasm'')
             in (strings = Undefined \<or> typeof strings = ''boolean'') \<and>
                (wasm = Undefined \<or> typeof wasm = ''boolean''))))))"

text \<open>The two 32-bit ranges: signed, and unsigned.\<close>

definition int32 :: "int \<Rightarrow> bool" where
  "int32 n \<longleftrightarrow> - (2 ^ 31) \<le> n \<and> n < 2 ^ 31"

definition uint32 :: "int \<Rightarrow> bool" where
  "uint32 n \<longleftrightarrow> 0 \<le> n \<and> n < 2 ^ 32"

text \<open>An options object with the two offsets and nothing else.\<close>

definition offsets :: "ident \<Rightarrow> int \<Rightarrow> int \<Rightarrow> jsval" where
  "offsets i line column =
     JObject i [(Named ''lineOffset'', JNum (JInt line)),
                   (Named ''columnOffset'', JNum (JInt column))]"

subsection \<open>A sample world and sample engines, for concrete runs\<close>

definition world0 :: world where
  "world0 = \<lparr>sigint = [], emitter_log = [], contexts = Map.empty, defaultContextNameIndex = 1,
             next_addr = 0, engine_log = [], callbackMap = Map.empty\<rparr>"

definition world2 :: world where
  "world2 = world0\<lparr>sigint := [JFunction 1, JFunction 2]\<rparr>"

definition engine0 :: engine where
  "engine0 = \<lparr>ToString_other = (\<lambda>v. Inr ''[object Object]''),
              compile = (\<lambda>c. None),
              execute = (\<lambda>c w. (Inr Undefined, w)),
              compile_function = (\<lambda>c. Inr (JFunction 0))\<rparr>"

definition engine_timeout :: engine where
  "engine_timeout = engine0\<lparr>execute := (\<lambda>c w. (Inl ERR_SCRIPT_EXECUTION_TIMEOUT, w))\<rparr>"

text \<open>The sample world after the object at address 5 has been made a context.\<close>

definition world_ctx5 :: world where
  "world_ctx5 =
     world0\<lparr>contexts := [Addr 5 \<mapsto> [JStr ''VM Context 1'', Undefined, JBool True, JBool True]],
            defaultContextNameIndex := 2,
            engine_log := [Call_makeContext [JObject (Addr 5) [], JStr ''VM Context 1'',
                                             Undefined, JBool True, JBool True]]\<rparr>"

text \<open>A module record for concrete runs: the properties the wrapper reads.\<close>

definition module_record :: "jsval" where
  "module_record = JObject (Addr 8) [(Named ''error'', JStr ''link failed''),
                                     (Named ''namespace'', JModuleNamespace 9)]"

subsection \<open>The free run functions as section 4.4 of the spec words them\<close>





section \<open>Basic facts\<close>

lemma shr0_id_iff: "shr0 n = n \<longleftrightarrow> - (2 ^ 31) \<le> n \<and> n < 2 ^ 31"
  unfolding shr0_def
  by (simp add: sint_sbintrunc' signed_take_bit_int_eq_self_iff)

lemma is_object_iff: "is_object x \<longleftrightarrow> typeof x = ''object'' \<and> x \<noteq> Null"
  by (cases x) simp_all

lemma reattach_eq:
  "reattach ls st =
     st\<lparr>sigint := sigint st @ ls, emitter_log := emitter_log st @ map AddListener ls\<rparr>"
  by (induction ls arbitrary: st) (simp_all add: addListener_def)

lemma isContext_True_iff:
  "isContext x st = Inr True \<longleftrightarrow> is_object x \<and> isContext_native x st"
  by (cases x) (auto simp add: isContext_def)

lemma isContext_makeContext:
  "is_object x \<Longrightarrow> isContext x (makeContext x n og s w st) = Inr True"
  by (cases x) (simp_all add: isContext_def makeContext_def isContext_native_def)

lemma createContext_recognized:
  "isContext x st = Inr True \<Longrightarrow> createContext x options st = (Inr x, st)"
  by (cases "x = Undefined") (simp_all add: createContext_def isContext_def)

lemma createContext_result:
  assumes "createContext x options st = (Inr y, st1)" and "x \<noteq> Undefined"
  shows "y = x \<and> isContext x st1 = Inr True"
proof -
  have obj: "is_object x"
    using assms by (auto simp add: createContext_def isContext_def is_object_iff split: if_splits)
  show ?thesis
  proof (cases "isContext_native x st")
    case True
    with obj have "isContext x st = Inr True" by (simp add: isContext_True_iff)
    with assms createContext_recognized [of x st options] show ?thesis by simp
  next
    case False
    with obj have nc: "isContext x st = Inr False" by (simp add: isContext_def is_object_iff)
    from assms nc obj show ?thesis
      by (auto simp add: createContext_def Let_def isContext_makeContext
          split: if_splits option.splits prod.splits)
  qed
qed

section \<open>The interrupt protocol of the run methods\<close>

text \<open>
  C1. When \<^verbatim>\<open>breakOnSigint\<close> is true and at least one SIGINT listener is registered,
  \<^verbatim>\<open>runInThisContext\<close> and \<^verbatim>\<open>runInContext\<close> run the engine on a world whose
  listeners have all been removed by one call of \<^verbatim>\<open>removeAllListeners\<close>. Whatever
  the engine's outcome is (a value, a timeout, an interrupt or any other exception),
  that outcome is passed on, and the world the engine left is extended by one
  \<^verbatim>\<open>addListener\<close> call for each saved listener, in the saved order. So when the
  code that ran registered no SIGINT listener of its own, the listeners after the call
  are the listeners before it.
\<close>

theorem sigint_listeners_reattached:
  assumes "getRunInContextArgs options = Inr (JBool True, args)"
    and "sigint st \<noteq> []"
  shows "sigint (removeAllListeners st) = [] \<and>
         emitter_log (removeAllListeners st) = emitter_log st @ [RemoveAllListeners] \<and>
         (super_runInThisContext E this args (removeAllListeners st) = (outcome, st2) \<longrightarrow>
            Script_runInThisContext E this options st =
              (outcome, st2\<lparr>sigint := sigint st2 @ sigint st,
                            emitter_log := emitter_log st2 @ map AddListener (sigint st)\<rparr>) \<and>
            (sigint st2 = [] \<longrightarrow>
               sigint (snd (Script_runInThisContext E this options st)) = sigint st)) \<and>
         (validateContext ctx st = None \<and>
          super_runInContext E this (ctx # args) (removeAllListeners st) = (outcome', st2') \<longrightarrow>
            Script_runInContext E this ctx options st =
              (outcome', st2'\<lparr>sigint := sigint st2' @ sigint st,
                              emitter_log := emitter_log st2' @ map AddListener (sigint st)\<rparr>) \<and>
            (sigint st2' = [] \<longrightarrow>
               sigint (snd (Script_runInContext E this ctx options st)) = sigint st))"
  using assms
  by (simp add: Script_runInThisContext_def Script_runInContext_def sigintHandlersWrap_def
      listenerCount_def rawListeners_def removeAllListeners_def reattach_eq Let_def)

theorem sigint_listeners_reattached_witness:
  "Script_runInThisContext engine_timeout 7
     (JObject (Addr 9) [(Named ''breakOnSigint'', JBool True)]) world2 =
   (Inl ERR_SCRIPT_EXECUTION_TIMEOUT,
    world2\<lparr>emitter_log := [RemoveAllListeners, AddListener (JFunction 1), AddListener (JFunction 2)],
           engine_log := [Call_runInThisContext 7 [JNum (JInt (- 1)), JBool True, JBool True]]\<rparr>)"
  using sigint_listeners_reattached
    [where options = "JObject (Addr 9) [(Named ''breakOnSigint'', JBool True)]"
       and args = "[JNum (JInt (- 1)), JBool True, JBool True]"
       and st = world2 and E = engine_timeout and this = 7
       and outcome = "Inl ERR_SCRIPT_EXECUTION_TIMEOUT"
       and ?st2.0 = "world0\<lparr>emitter_log := [RemoveAllListeners],
           engine_log := [Call_runInThisContext 7 [JNum (JInt (- 1)), JBool True, JBool True]]\<rparr>"]
  by (simp add: getRunInContextArgs_def get_default_def world2_def world0_def engine_timeout_def
      engine0_def super_runInThisContext_def removeAllListeners_def Let_def)

text \<open>
  C4. When \<^verbatim>\<open>breakOnSigint\<close> is false, or no SIGINT listener is registered at the
  call, \<^verbatim>\<open>runInThisContext\<close> and \<^verbatim>\<open>runInContext\<close> are the engine's own run
  methods applied to the world as it stands: nothing is removed from and nothing is
  added to the listeners of \<^verbatim>\<open>process\<close> by the module.
\<close>

theorem sigint_untouched:
  assumes "getRunInContextArgs options = Inr (b, args)"
    and "\<not> truthy b \<or> sigint st = []"
  shows "Script_runInThisContext E this options st = super_runInThisContext E this args st \<and>
         (validateContext ctx st = None \<longrightarrow>
            Script_runInContext E this ctx options st =
              super_runInContext E this (ctx # args) st)"
  using assms
  by (auto simp add: Script_runInThisContext_def Script_runInContext_def listenerCount_def)

theorem sigint_untouched_witness:
  "Script_runInThisContext engine0 7 Undefined world2 =
     (Inr Undefined,
      world2\<lparr>engine_log := [Call_runInThisContext 7 [JNum (JInt (- 1)), JBool True, JBool False]]\<rparr>) \<and>
   Script_runInThisContext engine0 7
     (JObject (Addr 9) [(Named ''breakOnSigint'', JBool True)]) world0 =
     (Inr Undefined,
      world0\<lparr>engine_log := [Call_runInThisContext 7 [JNum (JInt (- 1)), JBool True, JBool True]]\<rparr>)"
  using sigint_untouched
    [where options = Undefined and b = "JBool False"
       and args = "[JNum (JInt (- 1)), JBool True, JBool False]"
       and st = world2 and E = engine0 and this = 7]
    sigint_untouched
    [where options = "JObject (Addr 9) [(Named ''breakOnSigint'', JBool True)]"
       and b = "JBool True"
       and args = "[JNum (JInt (- 1)), JBool True, JBool True]"
       and st = world0 and E = engine0 and this = 7]
  by (simp add: getRunInContextArgs_def get_default_def world2_def world0_def
      engine0_def super_runInThisContext_def Let_def)

section \<open>Contexts\<close>

text \<open>
  C5. \<^verbatim>\<open>isContext\<close> throws exactly when its argument is not an object, and then
  the error is the invalid-argument type error; on every object it returns the
  engine's answer, true or false, and does not throw.
\<close>

theorem isContext_total:
  "((\<exists>e. isContext x st = Inl e) \<longleftrightarrow> \<not> is_object x) \<and>
   (\<not> is_object x \<longrightarrow> isContext x st = Inl (ERR_INVALID_ARG_TYPE ''sandbox'' [''Object''] x)) \<and>
   (is_object x \<longrightarrow> isContext x st = Inr (isContext_native x st))"
  by (cases x) (simp_all add: isContext_def)

theorem isContext_total_witness:
  "isContext (JObject (Addr 1) []) world0 = Inr False \<and>
   isContext (JStr ''x'') world0 = Inl (ERR_INVALID_ARG_TYPE ''sandbox'' [''Object''] (JStr ''x''))"
  using isContext_total [of "JObject (Addr 1) []" world0] isContext_total [of "JStr ''x''" world0]
  by (simp add: isContext_native_def world0_def)

lemma createContext_default_sandbox:
  "createContext Undefined options st =
     createContext (JObject (Addr (next_addr st)) []) options (st\<lparr>next_addr := Suc (next_addr st)\<rparr>)"
  by (simp add: createContext_def new_object_def)

lemma createContext_Inr_context:
  assumes "createContext x options st = (Inr y, st1)"
  shows "isContext y st1 = Inr True"
proof (cases "x = Undefined")
  case True
  with assms createContext_default_sandbox [of options st]
  have "createContext (JObject (Addr (next_addr st)) []) options
          (st\<lparr>next_addr := Suc (next_addr st)\<rparr>) = (Inr y, st1)"
    by simp
  from createContext_result [OF this] show ?thesis by simp
next
  case False
  with createContext_result [OF assms] show ?thesis by simp
qed

lemma isContext_makeContext_other:
  "address y \<noteq> address x \<Longrightarrow> contexts st' = contexts st \<Longrightarrow>
   isContext y (makeContext x n og s w st') = isContext y st"
  by (cases "address x"; cases "address y")
     (simp_all add: isContext_def makeContext_def isContext_native_def)

lemma createContext_valid:
  assumes obj: "is_object x" and nc: "isContext x st = Inr False"
    and valid: "valid_context_options options"
  shows "\<exists>st1. createContext x options st = (Inr x, st1) \<and> isContext x st1 = Inr True \<and>
           (\<forall>y. address y \<noteq> address x \<longrightarrow> isContext y st1 = isContext y st)"
proof -
  define opts where "opts = (if options = Undefined then JObject Temp [] else options)"
  define cg where "cg = get opts (Named ''codeGeneration'')"
  from obj have x: "x \<noteq> Undefined" by auto
  from valid have o: "typeof opts = ''object''" "opts \<noteq> Null"
    by (auto simp add: valid_context_options_def opts_def is_object_iff)
  from valid have name: "get opts (Named ''name'') = Undefined \<or>
      typeof (get opts (Named ''name'')) = ''string''"
    by (auto simp add: valid_context_options_def opts_def Let_def)
  from valid have origin: "validateString (get opts (Named ''origin'')) ''options.origin'' = None"
    by (auto simp add: valid_context_options_def opts_def Let_def validateString_def)
  from valid have cgo: "validateObject cg ''options.codeGeneration'' = None"
    by (auto simp add: valid_context_options_def opts_def cg_def Let_def validateObject_def
        is_object_iff)
  from valid have s: "validateBool (if cg \<noteq> Undefined
        then get_default cg (Named ''strings'') (JBool True) else JBool True)
        ''options.codeGeneration.strings'' = None"
    by (auto simp add: valid_context_options_def opts_def cg_def Let_def validateBool_def
        get_default_def)
  from valid have w: "validateBool (if cg \<noteq> Undefined
        then get_default cg (Named ''wasm'') (JBool True) else JBool True)
        ''options.codeGeneration.wasm'' = None"
    by (auto simp add: valid_context_options_def opts_def cg_def Let_def validateBool_def
        get_default_def)
  show ?thesis
  proof (cases "get opts (Named ''name'') = Undefined")
    case True
    have "createContext x options st =
        (Inr x, makeContext x (JStr (''VM Context '' @ string_of_nat (defaultContextNameIndex st)))
           (get opts (Named ''origin''))
           (if cg \<noteq> Undefined then get_default cg (Named ''strings'') (JBool True) else JBool True)
           (if cg \<noteq> Undefined then get_default cg (Named ''wasm'') (JBool True) else JBool True)
           (st\<lparr>defaultContextNameIndex := Suc (defaultContextNameIndex st)\<rparr>))"
      using x nc o True origin cgo s w
      unfolding createContext_def opts_def [symmetric]
      by (simp add: Let_def cg_def [symmetric])
    then show ?thesis
      using isContext_makeContext [OF obj] isContext_makeContext_other by simp
  next
    case False
    with name have str: "typeof (get opts (Named ''name'')) = ''string''" by simp
    have "createContext x options st =
        (Inr x, makeContext x (get opts (Named ''name''))
           (get opts (Named ''origin''))
           (if cg \<noteq> Undefined then get_default cg (Named ''strings'') (JBool True) else JBool True)
           (if cg \<noteq> Undefined then get_default cg (Named ''wasm'') (JBool True) else JBool True)
           st)"
      using x nc o False str origin cgo s w
      unfolding createContext_def opts_def [symmetric]
      by (simp add: Let_def cg_def [symmetric])
    then show ?thesis
      using isContext_makeContext [OF obj] isContext_makeContext_other by simp
  qed
qed

lemma valid_context_options_Undefined: "valid_context_options Undefined"
  by (simp add: valid_context_options_def)

lemma string_of_nat_digit:
  "string_of_nat 0 = ''0''" "string_of_nat 1 = ''1''" "string_of_nat (Suc 0) = ''1''"
  by code_simp+

text \<open>
  C2. \<^verbatim>\<open>createContext\<close> returns a recognized context as it is, whatever the
  options, and leaves the world as it was. Whatever a call of \<^verbatim>\<open>createContext\<close>
  returns is returned unchanged by a second call on it, which changes nothing. In
  particular, for every object \<open>x\<close>, \<^verbatim>\<open>createContext(x)\<close> returns \<open>x\<close> and
  \<^verbatim>\<open>createContext(createContext(x))\<close> is that same \<open>x\<close>.
\<close>

theorem createContext_idempotent:
  "(isContext x st = Inr True \<longrightarrow> createContext x options st = (Inr x, st)) \<and>
   (createContext x options st = (Inr y, st1) \<longrightarrow> createContext y options' st1 = (Inr y, st1)) \<and>
   (is_object x \<longrightarrow>
      (\<exists>st1. createContext x Undefined st = (Inr x, st1) \<and>
             createContext x Undefined st1 = (Inr x, st1)))"
proof (intro conjI impI)
  assume "isContext x st = Inr True"
  then show "createContext x options st = (Inr x, st)" by (rule createContext_recognized)
next
  assume "createContext x options st = (Inr y, st1)"
  then have "isContext y st1 = Inr True" by (rule createContext_Inr_context)
  then show "createContext y options' st1 = (Inr y, st1)" by (rule createContext_recognized)
next
  assume obj: "is_object x"
  show "\<exists>st1. createContext x Undefined st = (Inr x, st1) \<and>
             createContext x Undefined st1 = (Inr x, st1)"
  proof (cases "isContext_native x st")
    case True
    with obj have "isContext x st = Inr True" by (simp add: isContext_True_iff)
    then have "createContext x Undefined st = (Inr x, st)" by (rule createContext_recognized)
    then show ?thesis by simp
  next
    case False
    with obj have "isContext x st = Inr False" by (simp add: isContext_def is_object_iff)
    from createContext_valid [OF obj this valid_context_options_Undefined]
    obtain st1 where "createContext x Undefined st = (Inr x, st1)" "isContext x st1 = Inr True"
      by blast
    then show ?thesis using createContext_recognized [of x st1 Undefined] by simp
  qed
qed

theorem createContext_idempotent_witness:
  "createContext (JObject (Addr 5) []) Undefined world0 = (Inr (JObject (Addr 5) []), world_ctx5) \<and>
   createContext (JObject (Addr 5) []) Undefined world_ctx5 =
     (Inr (JObject (Addr 5) []), world_ctx5)"
proof -
  have first: "createContext (JObject (Addr 5) []) Undefined world0 =
      (Inr (JObject (Addr 5) []), world_ctx5)"
    by (simp add: createContext_def isContext_def isContext_native_def world0_def world_ctx5_def
        validateString_def validateObject_def validateBool_def makeContext_def string_of_nat_digit
        Let_def)
  from createContext_idempotent
    [of "JObject (Addr 5) []" world0 Undefined "JObject (Addr 5) []" world_ctx5 Undefined] first
  show ?thesis by simp
qed

text \<open>
  C9. For an object \<open>x\<close> that is not yet a context and valid options,
  \<^verbatim>\<open>createContext\<close> returns \<open>x\<close> itself, \<open>x\<close> is a context afterwards, and
  no value of another identity changes its standing with \<^verbatim>\<open>isContext\<close>.
\<close>

theorem createContext_in_place:
  assumes "is_object x" and "isContext x st = Inr False" and "valid_context_options options"
  shows "\<exists>st1. createContext x options st = (Inr x, st1) \<and> isContext x st1 = Inr True \<and>
           (\<forall>y. address y \<noteq> address x \<longrightarrow> isContext y st1 = isContext y st)"
  using assms by (rule createContext_valid)

theorem createContext_in_place_witness:
  "createContext (JObject (Addr 5) [(Named ''a'', JNum (JInt 1))])
     (JObject (Addr 6) [(Named ''name'', JStr ''sandbox'')]) world0 =
   (Inr (JObject (Addr 5) [(Named ''a'', JNum (JInt 1))]),
    world0\<lparr>contexts := [Addr 5 \<mapsto> [JStr ''sandbox'', Undefined, JBool True, JBool True]],
           engine_log := [Call_makeContext [JObject (Addr 5) [(Named ''a'', JNum (JInt 1))],
                                            JStr ''sandbox'', Undefined, JBool True, JBool True]]\<rparr>) \<and>
   isContext (JObject (Addr 5) [(Named ''a'', JNum (JInt 1))]) world0 = Inr False \<and>
   isContext (JObject (Addr 5) [(Named ''a'', JNum (JInt 1))])
     (snd (createContext (JObject (Addr 5) [(Named ''a'', JNum (JInt 1))])
        (JObject (Addr 6) [(Named ''name'', JStr ''sandbox'')]) world0)) = Inr True"
proof -
  have nc: "isContext (JObject (Addr 5) [(Named ''a'', JNum (JInt 1))]) world0 = Inr False"
    by (simp add: isContext_def isContext_native_def world0_def)
  have v: "valid_context_options (JObject (Addr 6) [(Named ''name'', JStr ''sandbox'')])"
    by (simp add: valid_context_options_def)
  have e: "createContext (JObject (Addr 5) [(Named ''a'', JNum (JInt 1))])
     (JObject (Addr 6) [(Named ''name'', JStr ''sandbox'')]) world0 =
   (Inr (JObject (Addr 5) [(Named ''a'', JNum (JInt 1))]),
    world0\<lparr>contexts := [Addr 5 \<mapsto> [JStr ''sandbox'', Undefined, JBool True, JBool True]],
           engine_log := [Call_makeContext [JObject (Addr 5) [(Named ''a'', JNum (JInt 1))],
                                            JStr ''sandbox'', Undefined, JBool True, JBool True]]\<rparr>)"
    by (simp add: createContext_def isContext_def isContext_native_def world0_def
        validateString_def validateObject_def validateBool_def makeContext_def Let_def)
  from createContext_in_place [OF _ nc v] nc e show ?thesis by auto
qed

section \<open>Compiling: the checks before the engine is entered\<close>

lemma validateInteger_int:
  "validateInteger (JNum (JInt n)) p =
     (if int32 n then None else Some (ERR_OUT_OF_RANGE p ''32-bit integer'' (JNum (JInt n))))"
  by (simp add: shr0_id_iff int32_def)

lemma validateUint32_int:
  "validateUint32 (JNum (JInt n)) p =
     (if uint32 n then None
      else Some (ERR_OUT_OF_RANGE p ''>= 0 && < 4294967296'' (JNum (JInt n))))"
  by (simp add: uint32_def)

lemma Script_constructor_offsets:
  "Script_constructor E (JStr code) (offsets i line column) st =
     (if \<not> int32 line
      then (Inl (ERR_OUT_OF_RANGE ''options.lineOffset'' ''32-bit integer'' (JNum (JInt line))), st)
      else if \<not> int32 column
      then (Inl (ERR_OUT_OF_RANGE ''options.columnOffset'' ''32-bit integer''
                   (JNum (JInt column))), st)
      else
        let call = New_ContextifyScript (next_addr st)
                     [JStr code, JStr ''evalmachine.<anonymous>'', JNum (JInt line),
                      JNum (JInt column), Undefined, JBool False, Undefined, JBool False];
            st1 = st\<lparr>next_addr := Suc (next_addr st), engine_log := engine_log st @ [call]\<rparr>
        in case compile E call of Some e \<Rightarrow> (Inl e, st1) | None \<Rightarrow> (Inr (next_addr st), st1))"
  by (simp add: Script_constructor_def offsets_def get_default_def validateInteger_int Let_def
       del: validateInteger.simps)

lemma compileFunction_offsets:
  "compileFunction E (JStr code) Undefined (offsets i line column) st =
     (if \<not> uint32 column
      then (Inl (ERR_OUT_OF_RANGE ''options.columnOffset'' ''>= 0 && < 4294967296''
                   (JNum (JInt column))), st)
      else if \<not> uint32 line
      then (Inl (ERR_OUT_OF_RANGE ''options.lineOffset'' ''>= 0 && < 4294967296''
                   (JNum (JInt line))), st)
      else
        let call = Call_compileFunction
                     [JStr code, JStr [], JNum (JInt line), JNum (JInt column), Undefined,
                      JBool False, Undefined, JArray Temp [], Undefined]
        in (compile_function E call, st\<lparr>engine_log := engine_log st @ [call]\<rparr>))"
  by (simp add: compileFunction_def offsets_def get_default_def validateUint32_int Let_def
       del: validateUint32.simps)

text \<open>
  C3, as the code has it. The Script constructor checks each offset with
  \<^verbatim>\<open>validateInteger\<close>: an integer offset passes exactly when it is a signed 32-bit
  integer, and one outside that range is an out-of-range error that leaves the world
  untouched, so the native constructor has not been entered. \<^verbatim>\<open>compileFunction\<close>
  checks the offsets with \<^verbatim>\<open>validateUint32\<close> instead: an integer offset passes
  exactly when it lies between \<open>0\<close> and \<open>2^32 - 1\<close>, and one outside that range,
  every negative one among them, is an out-of-range error before the native compile
  function is entered.
\<close>

theorem offsets_checked:
  "(validateInteger (JNum (JInt n)) p = None \<longleftrightarrow> int32 n) \<and>
   (\<not> int32 n \<longrightarrow>
      validateInteger (JNum (JInt n)) p =
        Some (ERR_OUT_OF_RANGE p ''32-bit integer'' (JNum (JInt n)))) \<and>
   Script_constructor E (JStr code) (offsets i line column) st =
     (if \<not> int32 line
      then (Inl (ERR_OUT_OF_RANGE ''options.lineOffset'' ''32-bit integer'' (JNum (JInt line))), st)
      else if \<not> int32 column
      then (Inl (ERR_OUT_OF_RANGE ''options.columnOffset'' ''32-bit integer''
                   (JNum (JInt column))), st)
      else
        let call = New_ContextifyScript (next_addr st)
                     [JStr code, JStr ''evalmachine.<anonymous>'', JNum (JInt line),
                      JNum (JInt column), Undefined, JBool False, Undefined, JBool False];
            st1 = st\<lparr>next_addr := Suc (next_addr st), engine_log := engine_log st @ [call]\<rparr>
        in case compile E call of Some e \<Rightarrow> (Inl e, st1) | None \<Rightarrow> (Inr (next_addr st), st1)) \<and>
   (validateUint32 (JNum (JInt n)) p = None \<longleftrightarrow> uint32 n) \<and>
   (\<not> uint32 n \<longrightarrow>
      validateUint32 (JNum (JInt n)) p =
        Some (ERR_OUT_OF_RANGE p ''>= 0 && < 4294967296'' (JNum (JInt n)))) \<and>
   compileFunction E (JStr code) Undefined (offsets i line column) st =
     (if \<not> uint32 column
      then (Inl (ERR_OUT_OF_RANGE ''options.columnOffset'' ''>= 0 && < 4294967296''
                   (JNum (JInt column))), st)
      else if \<not> uint32 line
      then (Inl (ERR_OUT_OF_RANGE ''options.lineOffset'' ''>= 0 && < 4294967296''
                   (JNum (JInt line))), st)
      else
        let call = Call_compileFunction
                     [JStr code, JStr [], JNum (JInt line), JNum (JInt column), Undefined,
                      JBool False, Undefined, JArray Temp [], Undefined]
        in (compile_function E call, st\<lparr>engine_log := engine_log st @ [call]\<rparr>))"
  using Script_constructor_offsets [of E code i line column st]
    compileFunction_offsets [of E code i line column st]
  by (simp add: validateInteger_int validateUint32_int
      del: validateInteger.simps validateUint32.simps)

theorem offsets_checked_witness:
  "Script_constructor engine0 (JStr ''1'') (offsets (Addr 3) (- 5) 7) world0 =
     (Inr 0, world0\<lparr>next_addr := 1, engine_log :=
        [New_ContextifyScript 0
           [JStr ''1'', JStr ''evalmachine.<anonymous>'', JNum (JInt (- 5)), JNum (JInt 7),
            Undefined, JBool False, Undefined, JBool False]]\<rparr>) \<and>
   Script_constructor engine0 (JStr ''1'') (offsets (Addr 3) 2147483648 0) world0 =
     (Inl (ERR_OUT_OF_RANGE ''options.lineOffset'' ''32-bit integer'' (JNum (JInt 2147483648))),
      world0) \<and>
   compileFunction engine0 (JStr ''1'') Undefined (offsets (Addr 3) 4294967296 0) world0 =
     (Inl (ERR_OUT_OF_RANGE ''options.lineOffset'' ''>= 0 && < 4294967296''
             (JNum (JInt 4294967296))), world0) \<and>
   compileFunction engine0 (JStr ''1'') Undefined (offsets (Addr 3) 3 4) world0 =
     (Inr (JFunction 0), world0\<lparr>engine_log :=
        [Call_compileFunction
           [JStr ''1'', JStr [], JNum (JInt 3), JNum (JInt 4), Undefined, JBool False,
            Undefined, JArray Temp [], Undefined]]\<rparr>)"
  using offsets_checked [of 0 "[]" engine0 "''1''" "Addr 3" "- 5" 7 world0]
    offsets_checked [of 0 "[]" engine0 "''1''" "Addr 3" 2147483648 0 world0]
    offsets_checked [of 0 "[]" engine0 "''1''" "Addr 3" 4294967296 0 world0]
    offsets_checked [of 0 "[]" engine0 "''1''" "Addr 3" 3 4 world0]
  by (simp add: int32_def uint32_def engine0_def world0_def Let_def
      del: validateInteger.simps validateUint32.simps)

text \<open>
  The claim C3 fails for \<^verbatim>\<open>compileFunction\<close>: the line offset \<open>-1\<close> is a
  signed 32-bit integer and is rejected, and \<open>3000000000\<close> is none and is passed on
  to the engine.
\<close>

theorem compileFunction_offset_counterexample:
  "int32 (- 1) \<and>
   compileFunction engine0 (JStr ''return 1'') Undefined (offsets (Addr 3) (- 1) 0) world0 =
     (Inl (ERR_OUT_OF_RANGE ''options.lineOffset'' ''>= 0 && < 4294967296'' (JNum (JInt (- 1)))),
      world0) \<and>
   \<not> int32 3000000000 \<and>
   compileFunction engine0 (JStr ''return 1'') Undefined (offsets (Addr 3) 3000000000 0) world0 =
     (Inr (JFunction 0), world0\<lparr>engine_log :=
        [Call_compileFunction
           [JStr ''return 1'', JStr [], JNum (JInt 3000000000), JNum (JInt 0), Undefined,
            JBool False, Undefined, JArray Temp [], Undefined]]\<rparr>)"
  by (simp add: compileFunction_offsets int32_def uint32_def engine0_def world0_def Let_def)

lemma Script_constructor_coerces:
  "ToString E code = Inr s \<Longrightarrow>
   Script_constructor E code options st = Script_constructor E (JStr s) options st"
  by (simp add: Script_constructor_def)

lemma Script_constructor_unconvertible:
  "ToString E code = Inl e \<Longrightarrow> Script_constructor E code options st = (Inl e, st)"
  by (simp add: Script_constructor_def)

text \<open>
  C7, as the code has it. \<^verbatim>\<open>compileFunction\<close> answers a code argument that is
  not a string with the invalid-argument type error and leaves the world untouched.
  The Script constructor, and through it \<^verbatim>\<open>createScript\<close> and the three run
  functions, make no such check: the code is converted to a string by a template
  literal and the call goes on as if that string had been given. Where the conversion
  itself throws (a symbol), the constructor throws that error.
\<close>

theorem code_argument_check:
  "(typeof code \<noteq> ''string'' \<longrightarrow>
      compileFunction E code params options st =
        (Inl (ERR_INVALID_ARG_TYPE ''code'' [''string''] code), st)) \<and>
   (ToString E code = Inr s \<longrightarrow>
      Script_constructor E code options st = Script_constructor E (JStr s) options st \<and>
      createScript E code options st = createScript E (JStr s) options st \<and>
      runInThisContext E code options st = runInThisContext E (JStr s) options st \<and>
      runInContext E code sandbox options st = runInContext E (JStr s) sandbox options st \<and>
      runInNewContext E code sandbox options st = runInNewContext E (JStr s) sandbox options st) \<and>
   (ToString E code = Inl e \<longrightarrow>
      Script_constructor E code options st = (Inl e, st) \<and>
      createScript E code options st = (Inl e, st) \<and>
      runInThisContext E code options st = (Inl e, st))"
proof (intro conjI impI)
  assume "typeof code \<noteq> ''string''"
  then show "compileFunction E code params options st =
      (Inl (ERR_INVALID_ARG_TYPE ''code'' [''string''] code), st)"
    by (simp add: compileFunction_def)
next
  assume conv: "ToString E code = Inr s"
  have c: "createScript E code opts w = createScript E (JStr s) opts w" for opts w
    unfolding createScript_def using conv by (rule Script_constructor_coerces)
  show "Script_constructor E code options st = Script_constructor E (JStr s) options st"
    using conv by (rule Script_constructor_coerces)
  show "createScript E code options st = createScript E (JStr s) options st"
    by (rule c)
  show "runInThisContext E code options st = runInThisContext E (JStr s) options st"
    unfolding runInThisContext_def by (simp only: c)
  show "runInContext E code sandbox options st = runInContext E (JStr s) sandbox options st"
    unfolding runInContext_def by (simp only: c)
  show "runInNewContext E code sandbox options st = runInNewContext E (JStr s) sandbox options st"
    unfolding runInNewContext_def by (simp only: c)
next
  assume fail: "ToString E code = Inl e"
  then show "Script_constructor E code options st = (Inl e, st)"
    by (rule Script_constructor_unconvertible)
  then show "createScript E code options st = (Inl e, st)"
    by (simp add: createScript_def)
  then show "runInThisContext E code options st = (Inl e, st)"
    by (simp add: runInThisContext_def Script_constructor_unconvertible [OF fail] createScript_def)
qed

theorem code_argument_check_witness:
  "compileFunction engine0 (JBool True) Undefined Undefined world0 =
     (Inl (ERR_INVALID_ARG_TYPE ''code'' [''string''] (JBool True)), world0) \<and>
   Script_constructor engine0 (JBool True) Undefined world0 =
     Script_constructor engine0 (JStr ''true'') Undefined world0 \<and>
   Script_constructor engine0 (JSymbol 1) Undefined world0 = (Inl TypeError, world0)"
  using code_argument_check [of "JBool True" engine0 Undefined Undefined world0 "''true''"]
    code_argument_check [of "JSymbol 1" engine0 Undefined Undefined world0 _ _ TypeError]
  by simp

text \<open>
  The claim C7 fails for the Script constructor: \<^verbatim>\<open>true\<close> is not a string, and
  the constructor compiles the text \<^verbatim>\<open>"true"\<close>.
\<close>

theorem script_code_counterexample:
  "typeof (JBool True) \<noteq> ''string'' \<and>
   Script_constructor engine0 (JBool True) Undefined world0 =
     (Inr 0, world0\<lparr>next_addr := 1, engine_log :=
        [New_ContextifyScript 0
           [JStr ''true'', JStr ''evalmachine.<anonymous>'', JNum (JInt 0), JNum (JInt 0),
            Undefined, JBool False, Undefined, JBool False]]\<rparr>)"
  by (simp add: Script_constructor_def get_default_def engine0_def world0_def Let_def shr0_def)

lemma check_extension_iff: "check_extension x k = None \<longleftrightarrow> typeof x = ''object''"
  by (simp add: check_extension_def)

lemma check_extension_object: "typeof x = ''object'' \<Longrightarrow> check_extension x k = None"
  by (simp add: check_extension_def)

lemma check_extension_other:
  "typeof x \<noteq> ''object'' \<Longrightarrow>
   check_extension x k =
     Some (ERR_INVALID_ARG_TYPE (''options.contextExtensions['' @ string_of_nat k @ '']'')
             [''object''] x)"
  by (simp add: check_extension_def)

lemma ArrayForEach_extensions_None:
  "ArrayForEach xs check_extension k = None \<longleftrightarrow> (\<forall>x\<in>set xs. typeof x = ''object'')"
proof (induction xs arbitrary: k)
  case Nil
  then show ?case by simp
next
  case (Cons x xs)
  then show ?case
    by (cases "typeof x = ''object''") (simp_all add: check_extension_object check_extension_other)
qed

lemma ArrayForEach_extensions_Some:
  "ArrayForEach xs check_extension k = Some e \<Longrightarrow>
   \<exists>j<length xs. typeof (xs ! j) \<noteq> ''object'' \<and> (\<forall>l<j. typeof (xs ! l) = ''object'') \<and>
     e = ERR_INVALID_ARG_TYPE (''options.contextExtensions['' @ string_of_nat (k + j) @ '']'')
           [''object''] (xs ! j)"
proof (induction xs arbitrary: k)
  case Nil
  then show ?case by simp
next
  case (Cons x xs)
  show ?case
  proof (cases "typeof x = ''object''")
    case True
    with Cons.prems have "ArrayForEach xs check_extension (Suc k) = Some e"
      by (simp add: check_extension_object)
    from Cons.IH [OF this] obtain j where j: "j < length xs" "typeof (xs ! j) \<noteq> ''object''"
      "\<forall>l<j. typeof (xs ! l) = ''object''"
      "e = ERR_INVALID_ARG_TYPE (''options.contextExtensions['' @ string_of_nat (Suc k + j) @ '']'')
           [''object''] (xs ! j)"
      by blast
    have "\<forall>l<Suc j. typeof ((x # xs) ! l) = ''object''"
      using True j(3) by (auto simp add: nth_Cons split: nat.splits)
    with j show ?thesis by (intro exI [of _ "Suc j"]) simp
  next
    case False
    with Cons.prems show ?thesis by (intro exI [of _ 0]) (simp add: check_extension_other)
  qed
qed

lemma compileFunction_extensions:
  "compileFunction E (JStr code) Undefined
     (JObject i [(Named ''contextExtensions'', JArray a xs)]) st =
   (case ArrayForEach xs check_extension 0 of
      Some e \<Rightarrow> (Inl e, st)
    | None \<Rightarrow>
        let call = Call_compileFunction
                     [JStr code, JStr [], JNum (JInt 0), JNum (JInt 0), Undefined, JBool False,
                      Undefined, JArray a xs, Undefined]
        in (compile_function E call, st\<lparr>engine_log := engine_log st @ [call]\<rparr>))"
  by (simp add: compileFunction_def get_default_def Let_def)

text \<open>
  C10. In \<^verbatim>\<open>compileFunction\<close> an element of \<^verbatim>\<open>contextExtensions\<close> raises the
  invalid-argument error exactly when its \<^verbatim>\<open>typeof\<close> is not \<^verbatim>\<open>'object'\<close>; the
  error names the first such element by its index. \<^verbatim>\<open>null\<close> passes, and an
  array whose elements all pass is handed to the native compile function as it is.
\<close>

theorem contextExtensions_null_passes:
  "(check_extension x k = None \<longleftrightarrow> typeof x = ''object'') \<and>
   check_extension Null k = None \<and>
   (ArrayForEach xs check_extension 0 = None \<longleftrightarrow> (\<forall>x\<in>set xs. typeof x = ''object'')) \<and>
   (ArrayForEach xs check_extension 0 = Some e \<longrightarrow>
      (\<exists>j<length xs. typeof (xs ! j) \<noteq> ''object'' \<and> (\<forall>l<j. typeof (xs ! l) = ''object'') \<and>
         e = ERR_INVALID_ARG_TYPE (''options.contextExtensions['' @ string_of_nat j @ '']'')
               [''object''] (xs ! j))) \<and>
   compileFunction E (JStr code) Undefined
     (JObject i [(Named ''contextExtensions'', JArray a xs)]) st =
   (case ArrayForEach xs check_extension 0 of
      Some e \<Rightarrow> (Inl e, st)
    | None \<Rightarrow>
        let call = Call_compileFunction
                     [JStr code, JStr [], JNum (JInt 0), JNum (JInt 0), Undefined, JBool False,
                      Undefined, JArray a xs, Undefined]
        in (compile_function E call, st\<lparr>engine_log := engine_log st @ [call]\<rparr>))"
  using ArrayForEach_extensions_Some [of xs 0 e]
  by (simp add: check_extension_iff ArrayForEach_extensions_None compileFunction_extensions)

theorem contextExtensions_null_passes_witness:
  "compileFunction engine0 (JStr ''return 1'') Undefined
     (JObject (Addr 3) [(Named ''contextExtensions'', JArray (Addr 4) [Null, JObject (Addr 5) []])])
     world0 =
   (Inr (JFunction 0),
    world0\<lparr>engine_log :=
      [Call_compileFunction
         [JStr ''return 1'', JStr [], JNum (JInt 0), JNum (JInt 0), Undefined, JBool False,
          Undefined, JArray (Addr 4) [Null, JObject (Addr 5) []], Undefined]]\<rparr>) \<and>
   compileFunction engine0 (JStr ''return 1'') Undefined
     (JObject (Addr 3) [(Named ''contextExtensions'', JArray (Addr 4) [Null, JNum (JInt 3)])])
     world0 =
   (Inl (ERR_INVALID_ARG_TYPE ''options.contextExtensions[1]'' [''object''] (JNum (JInt 3))),
    world0)"
  using contextExtensions_null_passes
      [of Null 0 "[Null, JObject (Addr 5) []]" _ engine0 "''return 1''" "Addr 3" "Addr 4" world0]
    contextExtensions_null_passes
      [of Null 0 "[Null, JNum (JInt 3)]" _ engine0 "''return 1''" "Addr 3" "Addr 4" world0]
  by (simp add: check_extension_def engine0_def world0_def string_of_nat_digit)

section \<open>The dynamic-import wrapper\<close>

lemma WeakMap_has_truthy: "WeakMap_has keys m \<Longrightarrow> truthy m"
  by (cases m) (simp_all add: WeakMap_has_def)

text \<open>
  C6. What the wrapper makes of the value \<open>m\<close> its resolver returned: a module
  namespace object is passed on as it is; any other value that is not a key of
  \<^verbatim>\<open>wrapMap\<close> (\<^verbatim>\<open>null\<close> and \<^verbatim>\<open>undefined\<close> never are) is the not-a-module
  error; a key whose linking status is \<^verbatim>\<open>'errored'\<close> throws the record's own
  error; every other key yields the record's namespace.
\<close>

theorem import_resolver_result:
  "(isModuleNamespaceObject m \<longrightarrow>
      importModuleDynamically_wrapper wrapMap linkingStatusMap (Inr m) = Inr m) \<and>
   (\<not> isModuleNamespaceObject m \<and> \<not> WeakMap_has wrapMap m \<longrightarrow>
      importModuleDynamically_wrapper wrapMap linkingStatusMap (Inr m) =
        Inl ERR_VM_MODULE_NOT_MODULE) \<and>
   \<not> WeakMap_has wrapMap Null \<and> \<not> WeakMap_has wrapMap Undefined \<and>
   (\<not> isModuleNamespaceObject m \<and> WeakMap_has wrapMap m \<and>
    WeakMap_get linkingStatusMap m = JStr ''errored'' \<longrightarrow>
      importModuleDynamically_wrapper wrapMap linkingStatusMap (Inr m) =
        Inl (Thrown (get m (Named ''error'')))) \<and>
   (\<not> isModuleNamespaceObject m \<and> WeakMap_has wrapMap m \<and>
    WeakMap_get linkingStatusMap m \<noteq> JStr ''errored'' \<longrightarrow>
      importModuleDynamically_wrapper wrapMap linkingStatusMap (Inr m) =
        Inr (get m (Named ''namespace'')))"
  by (auto simp add: importModuleDynamically_wrapper_def WeakMap_has_truthy)
     (simp_all add: WeakMap_has_def)

theorem import_resolver_result_witness:
  "importModuleDynamically_wrapper {Addr 8} [Addr 8 \<mapsto> JStr ''errored''] (Inr module_record) =
     Inl (Thrown (JStr ''link failed'')) \<and>
   importModuleDynamically_wrapper {Addr 8} [Addr 8 \<mapsto> JStr ''linked''] (Inr module_record) =
     Inr (JModuleNamespace 9) \<and>
   importModuleDynamically_wrapper {} Map.empty (Inr module_record) =
     Inl ERR_VM_MODULE_NOT_MODULE \<and>
   importModuleDynamically_wrapper {} Map.empty (Inr (JModuleNamespace 9)) =
     Inr (JModuleNamespace 9)"
  using import_resolver_result [of module_record "{Addr 8}" "[Addr 8 \<mapsto> JStr ''errored'']"]
    import_resolver_result [of module_record "{Addr 8}" "[Addr 8 \<mapsto> JStr ''linked'']"]
    import_resolver_result [of module_record "{}" Map.empty]
    import_resolver_result [of "JModuleNamespace 9" "{}" Map.empty]
  by (simp add: module_record_def WeakMap_has_def WeakMap_get_def)

section \<open>The free run functions\<close>

















end
